theory Spec2Isabelle
  imports Complex_Main "HOL-Library.Multiset"
begin

section \<open>Data model\<close>

text \<open>
  The retrieval pipeline of the repository: \<^verbatim>\<open>lib/rag-utils/{chunking,embeddings,search}.ts\<close>,
  the upload action \<^verbatim>\<open>processPdfFile\<close> and the chat route's tool \<^verbatim>\<open>searchKnoledgeBase\<close>.

  JavaScript strings are modelled as \<^typ>\<open>string\<close>, one \<^typ>\<open>char\<close> per code unit below 256.
  Numbers that hold similarities and thresholds are modelled as \<open>number\<close> (a real, an
  infinity or NaN; rounding is not modelled); the limit of a query as \<^typ>\<open>int\<close>.
\<close>

type_synonym embedding = "real list"

type_synonym bytes = "nat list"

text \<open>A double: what a JavaScript \<^verbatim>\<open>number\<close> and a \<^verbatim>\<open>float8\<close> of the database hold.\<close>

datatype number = Num real | PosInf | NegInf | NaN

text \<open>The operator \<^verbatim>\<open>>\<close> of PostgreSQL on \<^verbatim>\<open>float8\<close>, which also orders the rows of an
  ORDER BY: NaN is equal to NaN and greater than every other value.\<close>

fun float8_gt :: "number \<Rightarrow> number \<Rightarrow> bool" where
  "float8_gt a NaN = False"
| "float8_gt NaN b = True"
| "float8_gt a PosInf = False"
| "float8_gt PosInf b = True"
| "float8_gt NegInf b = False"
| "float8_gt a NegInf = True"
| "float8_gt (Num x) (Num y) = (y < x)"

definition float8_le :: "number \<Rightarrow> number \<Rightarrow> bool" where
  "float8_le a b = (\<not> float8_gt a b)"

text \<open>The operators \<^verbatim>\<open><=\<close> and \<^verbatim>\<open>>=\<close> of JavaScript, which the caller of the search has: false
  whenever an operand is NaN, the order of the values otherwise.\<close>

definition js_le :: "number \<Rightarrow> number \<Rightarrow> bool" where
  "js_le a b \<longleftrightarrow> a \<noteq> NaN \<and> b \<noteq> NaN \<and> \<not> float8_gt a b"

definition js_ge :: "number \<Rightarrow> number \<Rightarrow> bool" where
  "js_ge a b = js_le b a"

text \<open>The subtraction \<^verbatim>\<open>1 - x\<close> on doubles.\<close>

fun one_minus :: "number \<Rightarrow> number" where
  "one_minus (Num x) = Num (1 - x)"
| "one_minus PosInf = NegInf"
| "one_minus NegInf = PosInf"
| "one_minus NaN = NaN"

text \<open>The values a rejected promise can carry: every \<^verbatim>\<open>throw\<close> of the code and of the services
  it calls is one of these, with its message.\<close>

datatype error =
    TypeError string
  | PdfError string
  | EmbeddingError string
  | DatabaseError string

fun message :: "error \<Rightarrow> string" where
  "message (TypeError m) = m"
| "message (PdfError m) = m"
| "message (EmbeddingError m) = m"
| "message (DatabaseError m) = m"

text \<open>Table \<^verbatim>\<open>documents\<close> of \<^verbatim>\<open>db-schema.ts\<close>: \<^verbatim>\<open>id serial primary key\<close>,
  \<^verbatim>\<open>content text not null\<close>, \<^verbatim>\<open>embedding vector(1536)\<close> (nullable).\<close>

record document =
  doc_id :: nat
  doc_content :: string
  doc_embedding :: "embedding option"

text \<open>The value of an insert: \<^verbatim>\<open>{ content: chunk, embedding: embeddings[index] }\<close>.\<close>

record insert_document =
  ins_content :: string
  ins_embedding :: "embedding option"

text \<open>The database: the rows of \<^verbatim>\<open>documents\<close> and the next value of the serial sequence.\<close>

record database =
  documents :: "document list"
  serial :: nat

text \<open>A row of the select of \<^verbatim>\<open>searchDocuments\<close>: \<^verbatim>\<open>{ id, content, similarity }\<close>.\<close>

record similar_document =
  res_id :: nat
  res_content :: string
  res_similarity :: number

text \<open>The options of \<^verbatim>\<open>new RecursiveCharacterTextSplitter({...})\<close>.\<close>

record splitter_options =
  chunkSize :: nat
  chunkOverlap :: nat
  separators :: "string list"

text \<open>
  The services the code calls and does not define: \<^verbatim>\<open>embed\<close> and \<^verbatim>\<open>embedMany\<close> of the AI SDK
  (given the model's name and the value(s)), the operator \<^verbatim>\<open>cosineDistance\<close> of pgvector
  (a double, NaN for a vector of norm zero),
  \<^verbatim>\<open>PDFParse.getText\<close>, \<^verbatim>\<open>RecursiveCharacterTextSplitter.splitText\<close>, and whether the database
  call itself fails (\<open>dbFault\<close>, for instance a lost connection). They are parameters of the
  model: every theorem holds for all of them.
\<close>

record env =
  embed :: "string \<Rightarrow> string \<Rightarrow> error + embedding"
  embedMany :: "string \<Rightarrow> string list \<Rightarrow> error + embedding list"
  cosineDistance :: "embedding \<Rightarrow> embedding \<Rightarrow> number"
  getText :: "bytes \<Rightarrow> error + string"
  splitText :: "splitter_options \<Rightarrow> string \<Rightarrow> string list"
  dbFault :: "error option"

section \<open>Embeddings (\<^verbatim>\<open>embeddings.ts\<close>)\<close>

text \<open>\<^verbatim>\<open>text.replace(/\n/g, " ")\<close>: every match of the one-character pattern is replaced.\<close>

fun replace_newlines :: "string \<Rightarrow> string" where
  "replace_newlines [] = []"
| "replace_newlines (c # cs) =
     (if c = CHR 0x0A then CHR '' '' # replace_newlines cs else c # replace_newlines cs)"

definition embedding_model :: string where
  "embedding_model = ''text-embedding-3-small''"

definition generateEmbedding :: "env \<Rightarrow> string \<Rightarrow> error + embedding" where
  "generateEmbedding e text =
     (let input = replace_newlines text in embed e embedding_model input)"

definition generateEmbeddings :: "env \<Rightarrow> string list \<Rightarrow> error + embedding list" where
  "generateEmbeddings e texts =
     (let inputs = map replace_newlines texts in embedMany e embedding_model inputs)"

section \<open>Search (\<^verbatim>\<open>search.ts\<close>)\<close>

text \<open>The SQL expression \<^verbatim>\<open>1-(cosineDistance(documents.embedding, embedding))\<close>; it is NULL on a
  row whose embedding is NULL.\<close>

definition similarity :: "env \<Rightarrow> embedding \<Rightarrow> document \<Rightarrow> number option" where
  "similarity e q d =
     (case doc_embedding d of
        None \<Rightarrow> None
      | Some v \<Rightarrow> Some (one_minus (cosineDistance e v q)))"

text \<open>\<^verbatim>\<open>gt(similarity, threshold)\<close> in a WHERE clause: a row passes when the comparison is true,
  which it is not on NULL.\<close>

definition gt :: "number option \<Rightarrow> number \<Rightarrow> bool" where
  "gt s threshold = (case s of None \<Rightarrow> False | Some x \<Rightarrow> float8_gt x threshold)"

text \<open>\<^verbatim>\<open>select({id, content, similarity}).from(documents).where(gt(similarity, threshold))\<close> on
  one row: the selected row, or nothing when the row does not pass.\<close>

definition select_where ::
  "env \<Rightarrow> embedding \<Rightarrow> number \<Rightarrow> document \<Rightarrow> similar_document option" where
  "select_where e q threshold d =
     (case similarity e q d of
        None \<Rightarrow> None
      | Some s \<Rightarrow>
          if gt (Some s) threshold
          then Some \<lparr>res_id = doc_id d, res_content = doc_content d, res_similarity = s\<rparr>
          else None)"

definition from_where ::
  "env \<Rightarrow> embedding \<Rightarrow> number \<Rightarrow> document list \<Rightarrow> similar_document list" where
  "from_where e q threshold ds = List.map_filter (select_where e q threshold) ds"

text \<open>\<^verbatim>\<open>orderBy(desc(similarity))\<close>: the rows come back in an order in which, by the database's
  comparison, the similarity never increases. The query names no other sort key, so SQL
  leaves the order of rows with equal similarity to the database: every such arrangement of
  the rows is a possible answer.\<close>

definition desc_similarity :: "similar_document list \<Rightarrow> bool" where
  "desc_similarity rs =
     sorted_wrt (\<lambda>a b. float8_le (res_similarity b) (res_similarity a)) rs"

definition orderBy_desc :: "similar_document list \<Rightarrow> similar_document list \<Rightarrow> bool" where
  "orderBy_desc rs ordered \<longleftrightarrow> mset ordered = mset rs \<and> desc_similarity ordered"

text \<open>\<^verbatim>\<open>limit(limit)\<close>: the query builder writes a LIMIT clause for a number that is not
  negative, and none otherwise; \<^verbatim>\<open>searchDocuments\<close> passes its argument unchecked.\<close>

definition limit_rows :: "int \<Rightarrow> similar_document list \<Rightarrow> similar_document list" where
  "limit_rows limit rs = (if 0 \<le> limit then take (nat limit) rs else rs)"

text \<open>Rows of equal similarity in ascending order of their ids (the order a secondary sort
  key \<^verbatim>\<open>id\<close> would give).\<close>

definition ties_by_id :: "similar_document list \<Rightarrow> bool" where
  "ties_by_id rs =
     sorted_wrt (\<lambda>a b. res_similarity a = res_similarity b \<longrightarrow> res_id a < res_id b) rs"

text \<open>Every adjacent pair of rows satisfies \<^verbatim>\<open>results[i].similarity >= results[i+1].similarity\<close>,
  as JavaScript evaluates it.\<close>

fun adjacent_ge :: "similar_document list \<Rightarrow> bool" where
  "adjacent_ge (a # b # rs) \<longleftrightarrow>
     js_ge (res_similarity a) (res_similarity b) \<and> adjacent_ge (b # rs)"
| "adjacent_ge rs \<longleftrightarrow> True"

text \<open>
  \<^verbatim>\<open>searchDocuments(query, limit, threshold)\<close>, as the relation between the call and what its
  promise settles to: \<open>Inl\<close> an error it rejects with, \<open>Inr\<close> the rows it resolves to.
  The query embedding comes first; an error of \<^verbatim>\<open>generateEmbedding\<close> is not caught. The query
  then fails when the database call fails.
\<close>

inductive searchDocuments ::
  "env \<Rightarrow> database \<Rightarrow> string \<Rightarrow> int \<Rightarrow> number \<Rightarrow> error + similar_document list \<Rightarrow> bool"
  for e :: env and db :: database and query :: string and limit :: int and threshold :: number
where
  embedding_rejected:
    "generateEmbedding e query = Inl err \<Longrightarrow>
     searchDocuments e db query limit threshold (Inl err)"
| database_rejected:
    "generateEmbedding e query = Inr q \<Longrightarrow> dbFault e = Some err \<Longrightarrow>
     searchDocuments e db query limit threshold (Inl err)"
| rows:
    "generateEmbedding e query = Inr q \<Longrightarrow> dbFault e = None \<Longrightarrow>
     orderBy_desc (from_where e q threshold (documents db)) ordered \<Longrightarrow>
     searchDocuments e db query limit threshold (Inr (limit_rows limit ordered))"

section \<open>Chunking (\<^verbatim>\<open>chunking.ts\<close>)\<close>

text \<open>The white space that \<^verbatim>\<open>String.prototype.trim\<close> removes, among the code units below 256:
  tab, line feed, vertical tab, form feed, carriage return, space and no-break space.\<close>

definition isWhiteSpace :: "char \<Rightarrow> bool" where
  "isWhiteSpace c \<longleftrightarrow>
     c \<in> set [CHR 0x09, CHR 0x0A, CHR 0x0B, CHR 0x0C, CHR 0x0D, CHR 0x20, CHR 0xA0]"

definition trim :: "string \<Rightarrow> string" where
  "trim s = rev (dropWhile isWhiteSpace (rev (dropWhile isWhiteSpace s)))"

definition textSplitter :: splitter_options where
  "textSplitter = \<lparr>chunkSize = 150, chunkOverlap = 20, separators = ['' '']\<rparr>"

definition chunkContent :: "env \<Rightarrow> string \<Rightarrow> string list" where
  "chunkContent e content = splitText e textSplitter (trim content)"

section \<open>The upload action (\<^verbatim>\<open>processPdfFile\<close>)\<close>

text \<open>A form: its entries in order. \<^verbatim>\<open>formData.get(name)\<close> is the first value of that name, or
  null.\<close>

datatype form_value = FileValue bytes | StringValue string

type_synonym form_data = "(string \<times> form_value) list"

text \<open>What the action returns: \<^verbatim>\<open>{ success: true, message }\<close> or
  \<^verbatim>\<open>{ success: false, error }\<close>.\<close>

datatype action_result = Success string | Failure string

fun success :: "action_result \<Rightarrow> bool" where
  "success (Success m) = True"
| "success (Failure m) = False"

text \<open>Decimal digits of a number, as a template literal prints it.\<close>

fun string_of_nat :: "nat \<Rightarrow> string" where
  "string_of_nat n =
     (if n < 10 then [''0123456789'' ! n]
      else string_of_nat (n div 10) @ [''0123456789'' ! (n mod 10)])"

declare string_of_nat.simps [simp del]

text \<open>\<^verbatim>\<open>(formData.get("pdf") as File).arrayBuffer()\<close>: the cast checks nothing, so a missing
  entry or a text entry raises a TypeError at the call.\<close>

definition arrayBuffer :: "form_value option \<Rightarrow> error + bytes" where
  "arrayBuffer file =
     (case file of
        None \<Rightarrow> Inl (TypeError ''Cannot read properties of null'')
      | Some (StringValue s) \<Rightarrow> Inl (TypeError ''file.arrayBuffer is not a function'')
      | Some (FileValue b) \<Rightarrow> Inr b)"

text \<open>\<^verbatim>\<open>chunks.map((chunk, index) => ({ content: chunk, embedding: embeddings[index] }))\<close>: an
  index beyond the embeddings reads undefined, which the insert stores as NULL.\<close>

definition records_of :: "string list \<Rightarrow> embedding list \<Rightarrow> insert_document list" where
  "records_of chunks embeddings =
     map (\<lambda>(index, chunk).
            \<lparr>ins_content = chunk,
             ins_embedding =
               (if index < length embeddings then Some (embeddings ! index) else None)\<rparr>)
         (enumerate 0 chunks)"

text \<open>\<^verbatim>\<open>db.insert(documents).values(records)\<close>: one INSERT statement. It fails as a whole when
  the database call fails or when a vector has not the 1536 dimensions of the column;
  otherwise every record becomes a row, with the next ids of the serial sequence.\<close>

definition dimensions :: nat where
  "dimensions = 1536"

definition insert_values :: "env \<Rightarrow> database \<Rightarrow> insert_document list \<Rightarrow> error + database" where
  "insert_values e db records =
     (case dbFault e of
        Some err \<Rightarrow> Inl err
      | None \<Rightarrow>
          if list_ex (\<lambda>r. case ins_embedding r of None \<Rightarrow> False
                          | Some v \<Rightarrow> length v \<noteq> dimensions) records
          then Inl (DatabaseError ''expected 1536 dimensions'')
          else Inr \<lparr>documents = documents db @
                      map (\<lambda>(i, r). \<lparr>doc_id = i, doc_content = ins_content r,
                                      doc_embedding = ins_embedding r\<rparr>)
                        (enumerate (serial db) records),
                    serial = serial db + length records\<rparr>)"

text \<open>The body of the \<^verbatim>\<open>try\<close> block: the result it returns or the error it throws, and the
  database it leaves.\<close>

definition processPdfFile_try ::
  "env \<Rightarrow> database \<Rightarrow> form_data \<Rightarrow> (error + action_result) \<times> database" where
  "processPdfFile_try e db formData =
     (let file = map_of formData ''pdf'' in
      case arrayBuffer file of
        Inl err \<Rightarrow> (Inl err, db)
      | Inr buffer \<Rightarrow>
     (case getText e buffer of
        Inl err \<Rightarrow> (Inl err, db)
      | Inr text \<Rightarrow>
          if text = [] \<or> length (trim text) = 0
          then (Inr (Failure ''No text found in PDF''), db)
          else
            let chunks = chunkContent e text in
            (case generateEmbeddings e chunks of
               Inl err \<Rightarrow> (Inl err, db)
             | Inr embeddings \<Rightarrow>
                 let records = records_of chunks embeddings in
                 (case insert_values e db records of
                    Inl err \<Rightarrow> (Inl err, db)
                  | Inr db' \<Rightarrow>
                      (Inr (Success (''Created '' @ string_of_nat (length records) @
                                     '' searchable chunks'')), db')))))"

text \<open>The action: the \<^verbatim>\<open>catch\<close> block turns every error into one result.\<close>

definition processPdfFile :: "env \<Rightarrow> database \<Rightarrow> form_data \<Rightarrow> action_result \<times> database" where
  "processPdfFile e db formData =
     (case processPdfFile_try e db formData of
        (Inr result, db') \<Rightarrow> (result, db')
      | (Inl err, db') \<Rightarrow> (Failure ''Failed to process PDF'', db'))"

section \<open>The chat route's tool (\<^verbatim>\<open>searchKnoledgeBase\<close>)\<close>

text \<open>What \<^verbatim>\<open>execute\<close> returns: a string, or the object \<^verbatim>\<open>{ error, details }\<close>.\<close>

datatype tool_result = Text string | ErrorDetails string string

text \<open>\<^verbatim>\<open>results.map((r, i) => `[${i + 1}] ${r.content}`).join("\n")\<close>\<close>

definition join :: "string \<Rightarrow> string list \<Rightarrow> string" where
  "join sep xs = (case xs of [] \<Rightarrow> [] | y # ys \<Rightarrow> y @ concat (map (\<lambda>z. sep @ z) ys))"

definition formattedResults :: "similar_document list \<Rightarrow> string" where
  "formattedResults results =
     join [CHR 0x0A]
       (map (\<lambda>(i, r). ''['' @ string_of_nat (i + 1) @ ''] '' @ res_content r)
          (enumerate 0 results))"

text \<open>The rest of \<^verbatim>\<open>execute\<close> once the promise of \<^verbatim>\<open>searchDocuments\<close> has settled.\<close>

fun tool_reply :: "error + similar_document list \<Rightarrow> tool_result" where
  "tool_reply (Inr results) =
     (if length results = 0 then Text ''No relevant information found''
      else Text (formattedResults results))"
| "tool_reply (Inl err) = ErrorDetails ''Failed to search the knowledge base'' (message err)"

text \<open>\<^verbatim>\<open>execute({ query })\<close>: the input schema has the query only; limit and threshold are the
  literals 3 and 0.5.\<close>

inductive execute :: "env \<Rightarrow> database \<Rightarrow> string \<Rightarrow> tool_result \<Rightarrow> bool"
  for e :: env and db :: database and query :: string
where
  settled:
    "searchDocuments e db query 3 (Num 0.5) settled_value \<Longrightarrow>
     execute e db query (tool_reply settled_value)"

section \<open>Concrete inputs\<close>

text \<open>A database of four rows and services that answer: the query embeds to the first unit
  vector, and the distance of two vectors is one minus their inner product (the cosine
  distance, on unit vectors), or NaN when one of them is the zero vector.\<close>

definition sample_distance :: "embedding \<Rightarrow> embedding \<Rightarrow> number" where
  "sample_distance v w =
     (if list_all (\<lambda>x. x = 0) v \<or> list_all (\<lambda>x. x = 0) w then NaN
      else Num (1 - sum_list (map2 (*) v w)))"

definition unit_query :: embedding where
  "unit_query = [1, 0, 0, 0]"

definition sample_env :: env where
  "sample_env =
     \<lparr>embed = (\<lambda>m t. Inr unit_query),
      embedMany = (\<lambda>m ts. Inr (map (\<lambda>t. unit_query) ts)),
      cosineDistance = sample_distance,
      getText = (\<lambda>b. Inr ''the quick brown fox''),
      splitText = (\<lambda>opts t. [t]),
      dbFault = None\<rparr>"

definition sample_db :: database where
  "sample_db =
     \<lparr>documents =
        [\<lparr>doc_id = 1, doc_content = ''half'', doc_embedding = Some [1/2, 1/2, 1/2, 1/2]\<rparr>,
         \<lparr>doc_id = 2, doc_content = ''near'', doc_embedding = Some [4/5, 3/5, 0, 0]\<rparr>,
         \<lparr>doc_id = 3, doc_content = ''far'', doc_embedding = Some [0, 1, 0, 0]\<rparr>,
         \<lparr>doc_id = 4, doc_content = ''same'', doc_embedding = Some [1, 0, 0, 0]\<rparr>],
      serial = 5\<rparr>"

text \<open>Two rows with the same content and embedding; a row with the zero vector beside a row
  with the query's vector; an empty table; and services whose embedding calls fail.\<close>

definition twin_db :: database where
  "twin_db =
     \<lparr>documents =
        [\<lparr>doc_id = 1, doc_content = ''fox'', doc_embedding = Some [1, 0, 0, 0]\<rparr>,
         \<lparr>doc_id = 2, doc_content = ''fox'', doc_embedding = Some [1, 0, 0, 0]\<rparr>],
      serial = 3\<rparr>"

definition zero_db :: database where
  "zero_db =
     \<lparr>documents =
        [\<lparr>doc_id = 1, doc_content = ''same'', doc_embedding = Some [1, 0, 0, 0]\<rparr>,
         \<lparr>doc_id = 2, doc_content = ''zero'', doc_embedding = Some [0, 0, 0, 0]\<rparr>],
      serial = 3\<rparr>"

definition empty_db :: database where
  "empty_db = \<lparr>documents = [], serial = 1\<rparr>"

definition failing_env :: env where
  "failing_env =
     sample_env\<lparr>embed := (\<lambda>m t. Inl (EmbeddingError ''insufficient_quota'')),
                embedMany := (\<lambda>m ts. Inl (EmbeddingError ''insufficient_quota''))\<rparr>"

text \<open>Services for an upload: embeddings of the 1536 dimensions of the column; the same
  with a database that cannot be reached; the same with a PDF whose text is blank; and a
  form with one file.\<close>

definition upload_env :: env where
  "upload_env = sample_env\<lparr>embedMany := (\<lambda>m ts. Inr (map (\<lambda>t. replicate 1536 0) ts))\<rparr>"

definition down_env :: env where
  "down_env = upload_env\<lparr>dbFault := Some (DatabaseError ''connection refused'')\<rparr>"

definition blank_env :: env where
  "blank_env = upload_env\<lparr>getText := (\<lambda>b. Inr ''  '')\<rparr>"

definition sample_form :: form_data where
  "sample_form = [(''pdf'', FileValue [37, 80, 68, 70])]"

section \<open>Lemmas on the query\<close>

lemma float8_gt_irrefl: "\<not> float8_gt a a"
  by (cases a) simp_all

lemma float8_gt_NaN_iff: "float8_gt NaN b \<longleftrightarrow> b \<noteq> NaN"
  by (cases b) simp_all

lemma float8_gt_not_js_le: "float8_gt a b \<Longrightarrow> \<not> js_le a b"
  by (simp add: js_le_def)

lemma float8_le_js_ge: "float8_le b a \<Longrightarrow> a \<noteq> NaN \<Longrightarrow> js_ge a b"
  by (cases a; cases b) (simp_all add: float8_le_def js_ge_def js_le_def)

lemma select_where_Some:
  "select_where e q threshold d = Some r \<longleftrightarrow>
     (\<exists>s. similarity e q d = Some s \<and> float8_gt s threshold \<and>
        r = \<lparr>res_id = doc_id d, res_content = doc_content d, res_similarity = s\<rparr>)"
  by (auto simp: select_where_def gt_def split: option.splits)

lemma set_from_where:
  "set (from_where e q threshold ds) =
     {r. \<exists>d\<in>set ds. select_where e q threshold d = Some r}"
  by (force simp: from_where_def map_filter_def)

lemma orderBy_desc_set: "orderBy_desc rs ordered \<Longrightarrow> set ordered = set rs"
  by (metis orderBy_desc_def set_mset_mset)

lemma orderBy_desc_length: "orderBy_desc rs ordered \<Longrightarrow> length ordered = length rs"
  by (metis orderBy_desc_def size_mset)

lemma set_limit_rows: "set (limit_rows limit rs) \<subseteq> set rs"
  by (auto simp: limit_rows_def dest: in_set_takeD)

lemma mset_limit_rows: "mset (limit_rows limit rs) \<subseteq># mset rs"
proof -
  have "mset (take n rs) \<subseteq># mset rs" for n
    by (metis append_take_drop_id mset_append mset_subset_eq_add_left)
  then show ?thesis by (simp add: limit_rows_def)
qed

lemma length_limit_rows:
  "length (limit_rows limit rs) = (if 0 \<le> limit then min (nat limit) (length rs) else length rs)"
  by (simp add: limit_rows_def min_def)

lemma limit_rows_all: "limit < 0 \<or> int (length rs) \<le> limit \<Longrightarrow> limit_rows limit rs = rs"
  by (auto simp: limit_rows_def)

lemma searchDocuments_rows:
  assumes "searchDocuments e db query limit threshold (Inr results)"
  obtains q ordered where
    "generateEmbedding e query = Inr q" "dbFault e = None"
    "orderBy_desc (from_where e q threshold (documents db)) ordered"
    "results = limit_rows limit ordered"
  using assms by (cases rule: searchDocuments.cases) auto

lemma searchDocuments_rowsI:
  assumes "generateEmbedding e query = Inr q" "dbFault e = None"
    "orderBy_desc (from_where e q threshold (documents db)) ordered"
    "results = limit_rows limit ordered"
  shows "searchDocuments e db query limit threshold (Inr results)"
  using assms searchDocuments.rows by blast

lemma sample_embedding: "generateEmbedding sample_env query = Inr unit_query"
  by (simp add: generateEmbedding_def sample_env_def)

lemma sample_fault: "dbFault sample_env = None"
  by (simp add: sample_env_def)

section \<open>Claims on the search\<close>

text \<open>
  C1. Whatever \<^verbatim>\<open>searchDocuments\<close> resolves to, for every limit and threshold: every returned
  row is the row of a stored document, with a similarity that the database finds greater
  than the threshold and that is not less than or equal to the threshold for the caller. A
  document whose similarity equals the threshold is not returned. The returned rows are
  among the rows above the threshold, as many of them as the limit allows (all of them
  under a negative limit), so a document strictly above the threshold is returned
  whenever the limit does not cut the rows.
\<close>

theorem searchDocuments_threshold_strict:
  assumes run: "searchDocuments e db query limit threshold (Inr results)"
      and q: "generateEmbedding e query = Inr q"
  shows "(\<forall>r\<in>set results.
            float8_gt (res_similarity r) threshold \<and> \<not> js_le (res_similarity r) threshold \<and>
            (\<exists>d\<in>set (documents db). similarity e q d = Some (res_similarity r) \<and>
               res_id r = doc_id d \<and> res_content r = doc_content d))
       \<and> (\<forall>d\<in>set (documents db). similarity e q d = Some threshold \<longrightarrow>
            \<lparr>res_id = doc_id d, res_content = doc_content d, res_similarity = threshold\<rparr>
              \<notin> set results)
       \<and> mset results \<subseteq># mset (from_where e q threshold (documents db))
       \<and> length results =
           (if 0 \<le> limit
            then min (nat limit) (length (from_where e q threshold (documents db)))
            else length (from_where e q threshold (documents db)))
       \<and> (\<forall>d\<in>set (documents db). \<forall>s. similarity e q d = Some s \<and> float8_gt s threshold \<longrightarrow>
            \<lparr>res_id = doc_id d, res_content = doc_content d, res_similarity = s\<rparr>
              \<in> set (from_where e q threshold (documents db)) \<and>
            (limit < 0 \<or> int (length (from_where e q threshold (documents db))) \<le> limit \<longrightarrow>
             \<lparr>res_id = doc_id d, res_content = doc_content d, res_similarity = s\<rparr>
               \<in> set results))"
proof -
  let ?cands = "from_where e q threshold (documents db)"
  from run obtain q' ordered where
    q': "generateEmbedding e query = Inr q'"
    and ord': "orderBy_desc (from_where e q' threshold (documents db)) ordered"
    and res: "results = limit_rows limit ordered"
    by (rule searchDocuments_rows)
  from q q' have "q' = q" by simp
  with ord' have ord: "orderBy_desc ?cands ordered" by simp
  have sub: "set results \<subseteq> set ?cands"
    using res orderBy_desc_set [OF ord] set_limit_rows [of limit ordered] by simp
  have above: "\<forall>r\<in>set results.
            float8_gt (res_similarity r) threshold \<and> \<not> js_le (res_similarity r) threshold \<and>
            (\<exists>d\<in>set (documents db). similarity e q d = Some (res_similarity r) \<and>
               res_id r = doc_id d \<and> res_content r = doc_content d)"
  proof
    fix r assume "r \<in> set results"
    with sub obtain d where d: "d \<in> set (documents db)" "select_where e q threshold d = Some r"
      by (auto simp: set_from_where)
    then show "float8_gt (res_similarity r) threshold \<and> \<not> js_le (res_similarity r) threshold \<and>
            (\<exists>d\<in>set (documents db). similarity e q d = Some (res_similarity r) \<and>
               res_id r = doc_id d \<and> res_content r = doc_content d)"
      by (auto simp: select_where_Some float8_gt_not_js_le)
  qed
  have equal: "\<forall>d\<in>set (documents db). similarity e q d = Some threshold \<longrightarrow>
            \<lparr>res_id = doc_id d, res_content = doc_content d, res_similarity = threshold\<rparr>
              \<notin> set results"
  proof (intro ballI impI notI)
    fix d
    assume "\<lparr>res_id = doc_id d, res_content = doc_content d, res_similarity = threshold\<rparr>
              \<in> set results"
    with above have "float8_gt threshold threshold" by fastforce
    then show False by (simp add: float8_gt_irrefl)
  qed
  have "mset results \<subseteq># mset ordered"
    unfolding res by (rule mset_limit_rows)
  then have among: "mset results \<subseteq># mset ?cands"
    using ord by (simp add: orderBy_desc_def)
  have count: "length results =
           (if 0 \<le> limit then min (nat limit) (length ?cands) else length ?cands)"
    using orderBy_desc_length [OF ord] by (simp add: res length_limit_rows)
  have eligible: "\<forall>d\<in>set (documents db). \<forall>s. similarity e q d = Some s \<and> float8_gt s threshold \<longrightarrow>
            \<lparr>res_id = doc_id d, res_content = doc_content d, res_similarity = s\<rparr> \<in> set ?cands \<and>
            (limit < 0 \<or> int (length ?cands) \<le> limit \<longrightarrow>
             \<lparr>res_id = doc_id d, res_content = doc_content d, res_similarity = s\<rparr>
               \<in> set results)"
  proof (intro ballI allI impI conjI)
    fix d s
    assume d: "d \<in> set (documents db)"
      and h: "similarity e q d = Some s \<and> float8_gt s threshold"
    then show cand: "\<lparr>res_id = doc_id d, res_content = doc_content d, res_similarity = s\<rparr>
        \<in> set ?cands"
      by (auto simp: set_from_where select_where_Some)
    assume "limit < 0 \<or> int (length ?cands) \<le> limit"
    then have "limit < 0 \<or> int (length ordered) \<le> limit"
      using orderBy_desc_length [OF ord] by simp
    then have "results = ordered" unfolding res by (rule limit_rows_all)
    with cand show "\<lparr>res_id = doc_id d, res_content = doc_content d, res_similarity = s\<rparr>
              \<in> set results"
      using orderBy_desc_set [OF ord] by simp
  qed
  from above equal among count eligible show ?thesis by blast
qed

lemma sample_from_where_half:
  "from_where sample_env unit_query (Num (1/2)) (documents sample_db) =
     [\<lparr>res_id = 2, res_content = ''near'', res_similarity = Num (4/5)\<rparr>,
      \<lparr>res_id = 4, res_content = ''same'', res_similarity = Num 1\<rparr>]"
  by (simp add: from_where_def map_filter_def select_where_def similarity_def gt_def
      sample_env_def sample_db_def sample_distance_def unit_query_def)

lemma sample_ordered_half:
  "orderBy_desc (from_where sample_env unit_query (Num (1/2)) (documents sample_db))
     [\<lparr>res_id = 4, res_content = ''same'', res_similarity = Num 1\<rparr>,
      \<lparr>res_id = 2, res_content = ''near'', res_similarity = Num (4/5)\<rparr>]"
  by (simp add: sample_from_where_half orderBy_desc_def desc_similarity_def float8_le_def)

lemma sample_search_half:
  "searchDocuments sample_env sample_db ''fox'' 5 (Num (1/2))
     (Inr [\<lparr>res_id = 4, res_content = ''same'', res_similarity = Num 1\<rparr>,
           \<lparr>res_id = 2, res_content = ''near'', res_similarity = Num (4/5)\<rparr>])"
  by (rule searchDocuments_rowsI [OF sample_embedding sample_fault sample_ordered_half])
     (simp add: limit_rows_def)

lemma sample_search_one:
  "searchDocuments sample_env sample_db ''fox'' 1 (Num (1/2))
     (Inr [\<lparr>res_id = 4, res_content = ''same'', res_similarity = Num 1\<rparr>])"
  by (rule searchDocuments_rowsI [OF sample_embedding sample_fault sample_ordered_half])
     (simp add: limit_rows_def)

lemma sample_search_negative:
  "searchDocuments sample_env sample_db ''fox'' (- 1) (Num (1/2))
     (Inr [\<lparr>res_id = 4, res_content = ''same'', res_similarity = Num 1\<rparr>,
           \<lparr>res_id = 2, res_content = ''near'', res_similarity = Num (4/5)\<rparr>])"
  by (rule searchDocuments_rowsI [OF sample_embedding sample_fault sample_ordered_half])
     (simp add: limit_rows_def)

theorem searchDocuments_threshold_strict_witness:
  "searchDocuments sample_env sample_db ''fox'' 5 (Num (1/2))
     (Inr [\<lparr>res_id = 4, res_content = ''same'', res_similarity = Num 1\<rparr>,
           \<lparr>res_id = 2, res_content = ''near'', res_similarity = Num (4/5)\<rparr>])
   \<and> generateEmbedding sample_env ''fox'' = Inr unit_query
   \<and> similarity sample_env unit_query
        \<lparr>doc_id = 1, doc_content = ''half'', doc_embedding = Some [1/2, 1/2, 1/2, 1/2]\<rparr>
       = Some (Num (1/2))
   \<and> \<lparr>res_id = 1, res_content = ''half'', res_similarity = Num (1/2)\<rparr>
        \<notin> set [\<lparr>res_id = 4, res_content = ''same'', res_similarity = Num 1\<rparr>,
               \<lparr>res_id = 2, res_content = ''near'', res_similarity = Num (4/5)\<rparr>]
   \<and> float8_gt (res_similarity \<lparr>res_id = 2, res_content = ''near'', res_similarity = Num (4/5)\<rparr>)
        (Num (1/2))
   \<and> length [\<lparr>res_id = 4, res_content = ''same'', res_similarity = Num 1\<rparr>,
              \<lparr>res_id = 2, res_content = ''near'', res_similarity = Num (4/5)\<rparr>]
       = min (nat 5) (length (from_where sample_env unit_query (Num (1/2)) (documents sample_db)))"
proof -
  note strict = searchDocuments_threshold_strict [OF sample_search_half sample_embedding]
  have half: "similarity sample_env unit_query
        \<lparr>doc_id = 1, doc_content = ''half'', doc_embedding = Some [1/2, 1/2, 1/2, 1/2]\<rparr>
       = Some (Num (1/2))"
    by (simp add: similarity_def sample_env_def sample_distance_def unit_query_def)
  have stored: "\<lparr>doc_id = 1, doc_content = ''half'', doc_embedding = Some [1/2, 1/2, 1/2, 1/2]\<rparr>
        \<in> set (documents sample_db)"
    by (simp add: sample_db_def)
  from strict have "\<forall>d\<in>set (documents sample_db).
      similarity sample_env unit_query d = Some (Num (1/2)) \<longrightarrow>
      \<lparr>res_id = doc_id d, res_content = doc_content d, res_similarity = Num (1/2)\<rparr>
        \<notin> set [\<lparr>res_id = 4, res_content = ''same'', res_similarity = Num 1\<rparr>,
               \<lparr>res_id = 2, res_content = ''near'', res_similarity = Num (4/5)\<rparr>]"
    by (rule conjunct2 [THEN conjunct1])
  from bspec [OF this stored] half
  have excluded: "\<lparr>res_id = 1, res_content = ''half'', res_similarity = Num (1/2)\<rparr>
        \<notin> set [\<lparr>res_id = 4, res_content = ''same'', res_similarity = Num 1\<rparr>,
               \<lparr>res_id = 2, res_content = ''near'', res_similarity = Num (4/5)\<rparr>]"
    by simp
  from strict have "\<forall>r\<in>set [\<lparr>res_id = 4, res_content = ''same'', res_similarity = Num 1\<rparr>,
               \<lparr>res_id = 2, res_content = ''near'', res_similarity = Num (4/5)\<rparr>].
       float8_gt (res_similarity r) (Num (1/2)) \<and> \<not> js_le (res_similarity r) (Num (1/2)) \<and>
            (\<exists>d\<in>set (documents sample_db).
               similarity sample_env unit_query d = Some (res_similarity r) \<and>
               res_id r = doc_id d \<and> res_content r = doc_content d)"
    by (rule conjunct1)
  then have above: "float8_gt
      (res_similarity \<lparr>res_id = 2, res_content = ''near'', res_similarity = Num (4/5)\<rparr>)
      (Num (1/2))"
    by simp
  have count: "length [\<lparr>res_id = 4, res_content = ''same'', res_similarity = Num 1\<rparr>,
              \<lparr>res_id = 2, res_content = ''near'', res_similarity = Num (4/5)\<rparr>]
       = min (nat 5) (length (from_where sample_env unit_query (Num (1/2)) (documents sample_db)))"
    by (simp add: sample_from_where_half)
  from sample_search_half sample_embedding half excluded above count show ?thesis by blast
qed

lemma desc_similarity_limit_rows:
  "desc_similarity rs \<Longrightarrow> desc_similarity (limit_rows limit rs)"
  unfolding desc_similarity_def limit_rows_def by (simp add: sorted_wrt_take)

lemma desc_similarity_adjacent:
  "desc_similarity rs \<Longrightarrow> Suc i < length rs \<Longrightarrow>
     float8_le (res_similarity (rs ! Suc i)) (res_similarity (rs ! i))"
  unfolding desc_similarity_def by (rule sorted_wrt_nth_less) simp_all

lemma desc_similarity_adjacent_ge:
  "desc_similarity rs \<Longrightarrow> NaN \<notin> res_similarity ` set rs \<Longrightarrow> adjacent_ge rs"
proof (induction rs rule: adjacent_ge.induct)
  case (1 a b rs)
  from "1.prems" have "float8_le (res_similarity b) (res_similarity a)"
    and "res_similarity a \<noteq> NaN"
    by (auto simp: desc_similarity_def)
  then have "js_ge (res_similarity a) (res_similarity b)" by (rule float8_le_js_ge)
  moreover from "1.prems" have "adjacent_ge (b # rs)"
    by (intro "1.IH") (auto simp: desc_similarity_def)
  ultimately show ?case by simp
qed simp_all

text \<open>
  C2 (as amended). Whatever \<^verbatim>\<open>searchDocuments\<close> resolves to is in descending order of
  similarity by the database's comparison, in which NaN stands above every number: no row
  has a greater similarity than the row before it, and where the earlier row of an adjacent
  pair has a similarity that is not NaN, \<^verbatim>\<open>results[i].similarity >= results[i+1].similarity\<close>
  holds for the caller; it holds for every adjacent pair when no returned similarity is
  NaN. Nothing is stated on the order of rows with equal similarity, which the query leaves
  to the database.
\<close>

theorem searchDocuments_descending:
  assumes run: "searchDocuments e db query limit threshold (Inr results)"
  shows "desc_similarity results \<and>
         (\<forall>i. Suc i < length results \<longrightarrow>
            float8_le (res_similarity (results ! Suc i)) (res_similarity (results ! i)) \<and>
            (res_similarity (results ! i) \<noteq> NaN \<longrightarrow>
               js_ge (res_similarity (results ! i)) (res_similarity (results ! Suc i)))) \<and>
         (NaN \<notin> res_similarity ` set results \<longrightarrow> adjacent_ge results)"
proof -
  from run obtain q ordered where
    ord: "orderBy_desc (from_where e q threshold (documents db)) ordered"
    and res: "results = limit_rows limit ordered"
    by (rule searchDocuments_rows)
  from ord have "desc_similarity ordered" by (simp add: orderBy_desc_def)
  with res have desc: "desc_similarity results" by (simp add: desc_similarity_limit_rows)
  then show ?thesis
    by (auto simp: desc_similarity_adjacent_ge
        intro: float8_le_js_ge desc_similarity_adjacent)
qed

theorem searchDocuments_descending_witness:
  "searchDocuments sample_env sample_db ''fox'' 5 (Num (1/2))
     (Inr [\<lparr>res_id = 4, res_content = ''same'', res_similarity = Num 1\<rparr>,
           \<lparr>res_id = 2, res_content = ''near'', res_similarity = Num (4/5)\<rparr>])
   \<and> desc_similarity [\<lparr>res_id = 4, res_content = ''same'', res_similarity = Num 1\<rparr>,
                       \<lparr>res_id = 2, res_content = ''near'', res_similarity = Num (4/5)\<rparr>]
   \<and> adjacent_ge [\<lparr>res_id = 4, res_content = ''same'', res_similarity = Num 1\<rparr>,
                   \<lparr>res_id = 2, res_content = ''near'', res_similarity = Num (4/5)\<rparr>]
   \<and> js_ge (Num 1) (Num (4/5))"
proof -
  note desc = searchDocuments_descending [OF sample_search_half]
  from desc have a: "desc_similarity [\<lparr>res_id = 4, res_content = ''same'', res_similarity = Num 1\<rparr>,
                       \<lparr>res_id = 2, res_content = ''near'', res_similarity = Num (4/5)\<rparr>]"
    by (rule conjunct1)
  from desc have b: "adjacent_ge [\<lparr>res_id = 4, res_content = ''same'', res_similarity = Num 1\<rparr>,
                   \<lparr>res_id = 2, res_content = ''near'', res_similarity = Num (4/5)\<rparr>]"
    by simp
  then have c: "js_ge (Num 1) (Num (4/5))" by simp
  from a b c sample_search_half show ?thesis by blast
qed

lemma twin_from_where:
  "from_where sample_env unit_query (Num (1/2)) (documents twin_db) =
     [\<lparr>res_id = 1, res_content = ''fox'', res_similarity = Num 1\<rparr>,
      \<lparr>res_id = 2, res_content = ''fox'', res_similarity = Num 1\<rparr>]"
  by (simp add: from_where_def map_filter_def select_where_def similarity_def gt_def
      sample_env_def twin_db_def sample_distance_def unit_query_def)

lemma zero_from_where:
  "from_where sample_env unit_query (Num (1/2)) (documents zero_db) =
     [\<lparr>res_id = 1, res_content = ''same'', res_similarity = Num 1\<rparr>,
      \<lparr>res_id = 2, res_content = ''zero'', res_similarity = NaN\<rparr>]"
  by (simp add: from_where_def map_filter_def select_where_def similarity_def gt_def
      sample_env_def zero_db_def sample_distance_def unit_query_def)

text \<open>
  C2 as stated fails twice. With two stored rows of equal similarity, the row with id 2
  before the row with id 1 is an answer of the query, and it is not in ascending order of
  ids. With a stored zero vector, whose similarity is NaN, the answer is the NaN row before
  the row of similarity 1, and \<^verbatim>\<open>NaN >= 1\<close> is false.
\<close>

theorem searchDocuments_ties_counterexample:
  "searchDocuments sample_env twin_db ''fox'' 5 (Num (1/2))
     (Inr [\<lparr>res_id = 2, res_content = ''fox'', res_similarity = Num 1\<rparr>,
           \<lparr>res_id = 1, res_content = ''fox'', res_similarity = Num 1\<rparr>])
   \<and> \<not> ties_by_id [\<lparr>res_id = 2, res_content = ''fox'', res_similarity = Num 1\<rparr>,
                     \<lparr>res_id = 1, res_content = ''fox'', res_similarity = Num 1\<rparr>]
   \<and> searchDocuments sample_env zero_db ''fox'' 5 (Num (1/2))
     (Inr [\<lparr>res_id = 2, res_content = ''zero'', res_similarity = NaN\<rparr>,
           \<lparr>res_id = 1, res_content = ''same'', res_similarity = Num 1\<rparr>])
   \<and> \<not> adjacent_ge [\<lparr>res_id = 2, res_content = ''zero'', res_similarity = NaN\<rparr>,
                      \<lparr>res_id = 1, res_content = ''same'', res_similarity = Num 1\<rparr>]
   \<and> \<not> searchDocuments sample_env zero_db ''fox'' 5 (Num (1/2))
     (Inr [\<lparr>res_id = 1, res_content = ''same'', res_similarity = Num 1\<rparr>,
           \<lparr>res_id = 2, res_content = ''zero'', res_similarity = NaN\<rparr>])"
proof (intro conjI)
  show "searchDocuments sample_env twin_db ''fox'' 5 (Num (1/2))
     (Inr [\<lparr>res_id = 2, res_content = ''fox'', res_similarity = Num 1\<rparr>,
           \<lparr>res_id = 1, res_content = ''fox'', res_similarity = Num 1\<rparr>])"
  proof (rule searchDocuments_rowsI [OF sample_embedding sample_fault])
    show "orderBy_desc (from_where sample_env unit_query (Num (1/2)) (documents twin_db))
          [\<lparr>res_id = 2, res_content = ''fox'', res_similarity = Num 1\<rparr>,
           \<lparr>res_id = 1, res_content = ''fox'', res_similarity = Num 1\<rparr>]"
      by (simp add: twin_from_where orderBy_desc_def desc_similarity_def float8_le_def)
  qed (simp add: limit_rows_def)
  show "\<not> ties_by_id [\<lparr>res_id = 2, res_content = ''fox'', res_similarity = Num 1\<rparr>,
                     \<lparr>res_id = 1, res_content = ''fox'', res_similarity = Num 1\<rparr>]"
    by (simp add: ties_by_id_def)
  show "searchDocuments sample_env zero_db ''fox'' 5 (Num (1/2))
     (Inr [\<lparr>res_id = 2, res_content = ''zero'', res_similarity = NaN\<rparr>,
           \<lparr>res_id = 1, res_content = ''same'', res_similarity = Num 1\<rparr>])"
  proof (rule searchDocuments_rowsI [OF sample_embedding sample_fault])
    show "orderBy_desc (from_where sample_env unit_query (Num (1/2)) (documents zero_db))
          [\<lparr>res_id = 2, res_content = ''zero'', res_similarity = NaN\<rparr>,
           \<lparr>res_id = 1, res_content = ''same'', res_similarity = Num 1\<rparr>]"
      by (simp add: zero_from_where orderBy_desc_def desc_similarity_def float8_le_def)
  qed (simp add: limit_rows_def)
  show "\<not> adjacent_ge [\<lparr>res_id = 2, res_content = ''zero'', res_similarity = NaN\<rparr>,
                      \<lparr>res_id = 1, res_content = ''same'', res_similarity = Num 1\<rparr>]"
    by (simp add: js_ge_def js_le_def)
  show "\<not> searchDocuments sample_env zero_db ''fox'' 5 (Num (1/2))
     (Inr [\<lparr>res_id = 1, res_content = ''same'', res_similarity = Num 1\<rparr>,
           \<lparr>res_id = 2, res_content = ''zero'', res_similarity = NaN\<rparr>])"
  proof
    assume "searchDocuments sample_env zero_db ''fox'' 5 (Num (1/2))
     (Inr [\<lparr>res_id = 1, res_content = ''same'', res_similarity = Num 1\<rparr>,
           \<lparr>res_id = 2, res_content = ''zero'', res_similarity = NaN\<rparr>])"
    then obtain q ordered where
      "orderBy_desc (from_where sample_env q (Num (1/2)) (documents zero_db)) ordered"
      and "[\<lparr>res_id = 1, res_content = ''same'', res_similarity = Num 1\<rparr>,
           \<lparr>res_id = 2, res_content = ''zero'', res_similarity = NaN\<rparr>] = limit_rows 5 ordered"
      by (rule searchDocuments_rows)
    then have "desc_similarity [\<lparr>res_id = 1, res_content = ''same'', res_similarity = Num 1\<rparr>,
           \<lparr>res_id = 2, res_content = ''zero'', res_similarity = NaN\<rparr>]"
      by (simp add: orderBy_desc_def desc_similarity_limit_rows)
    then show False by (simp add: desc_similarity_def float8_le_def)
  qed
qed

text \<open>
  C5 (as amended). Whatever \<^verbatim>\<open>searchDocuments\<close> resolves to has at most \<open>limit\<close> rows when the
  limit is not negative. Under a negative limit the query has no LIMIT clause and every
  row above the threshold is returned.
\<close>

theorem searchDocuments_limit:
  assumes run: "searchDocuments e db query limit threshold (Inr results)"
      and q: "generateEmbedding e query = Inr q"
  shows "(0 \<le> limit \<longrightarrow> int (length results) \<le> limit) \<and>
         (limit < 0 \<longrightarrow>
            length results = length (from_where e q threshold (documents db)))"
proof -
  from run obtain q' ordered where
    q': "generateEmbedding e query = Inr q'"
    and ord': "orderBy_desc (from_where e q' threshold (documents db)) ordered"
    and res: "results = limit_rows limit ordered"
    by (rule searchDocuments_rows)
  from q q' have "q' = q" by simp
  with ord' have len: "length ordered = length (from_where e q threshold (documents db))"
    by (simp add: orderBy_desc_length)
  have "0 \<le> limit \<longrightarrow> int (length results) \<le> limit"
    by (auto simp: res limit_rows_def)
  moreover have "limit < 0 \<longrightarrow>
      length results = length (from_where e q threshold (documents db))"
    by (simp add: res length_limit_rows len)
  ultimately show ?thesis by blast
qed

theorem searchDocuments_limit_witness:
  "searchDocuments sample_env sample_db ''fox'' 1 (Num (1/2))
     (Inr [\<lparr>res_id = 4, res_content = ''same'', res_similarity = Num 1\<rparr>])
   \<and> length (from_where sample_env unit_query (Num (1/2)) (documents sample_db)) = 2
   \<and> int (length [\<lparr>res_id = 4, res_content = ''same'', res_similarity = Num 1\<rparr>]) \<le> 1
   \<and> searchDocuments sample_env sample_db ''fox'' (- 1) (Num (1/2))
     (Inr [\<lparr>res_id = 4, res_content = ''same'', res_similarity = Num 1\<rparr>,
           \<lparr>res_id = 2, res_content = ''near'', res_similarity = Num (4/5)\<rparr>])"
proof -
  from searchDocuments_limit [OF sample_search_one sample_embedding]
  have "int (length [\<lparr>res_id = 4, res_content = ''same'', res_similarity = Num 1\<rparr>]) \<le> 1"
    by simp
  moreover from searchDocuments_limit [OF sample_search_negative sample_embedding]
  have "length (from_where sample_env unit_query (Num (1/2)) (documents sample_db)) = 2"
    by simp
  ultimately show ?thesis using sample_search_one sample_search_negative by blast
qed

text \<open>
  C5 as stated fails for a negative limit: with limit \<open>-1\<close> the search resolves to the two rows
  above the threshold, and 2 is not at most \<open>-1\<close>.
\<close>

theorem searchDocuments_negative_limit_counterexample:
  "searchDocuments sample_env sample_db ''fox'' (- 1) (Num (1/2))
     (Inr [\<lparr>res_id = 4, res_content = ''same'', res_similarity = Num 1\<rparr>,
           \<lparr>res_id = 2, res_content = ''near'', res_similarity = Num (4/5)\<rparr>])
   \<and> \<not> int (length [\<lparr>res_id = 4, res_content = ''same'', res_similarity = Num 1\<rparr>,
                      \<lparr>res_id = 2, res_content = ''near'', res_similarity = Num (4/5)\<rparr>])
          \<le> - 1"
  using sample_search_negative by simp






section \<open>Claims on the upload action\<close>

text \<open>
  C3. When \<^verbatim>\<open>processPdfFile\<close> reaches the embedding step (a file with text that is not blank)
  and \<^verbatim>\<open>generateEmbeddings\<close> fails, the action returns its failure result and the database is
  the one it started from: no row is inserted and the row count is unchanged.
\<close>

theorem processPdfFile_embedding_failure:
  assumes pdf: "arrayBuffer (map_of formData ''pdf'') = Inr buffer"
      and extracted: "getText e buffer = Inr text"
      and some: "\<not> (text = [] \<or> length (trim text) = 0)"
      and fails: "generateEmbeddings e (chunkContent e text) = Inl err"
  shows "processPdfFile e db formData = (Failure ''Failed to process PDF'', db) \<and>
         length (documents (snd (processPdfFile e db formData))) = length (documents db)"
proof -
  have "processPdfFile_try e db formData = (Inl err, db)"
    using pdf extracted some fails by (simp add: processPdfFile_try_def)
  then show ?thesis by (simp add: processPdfFile_def)
qed

lemma sample_pdf: "arrayBuffer (map_of sample_form ''pdf'') = Inr [37, 80, 68, 70]"
  by (simp add: sample_form_def arrayBuffer_def)

lemma trim_sample: "trim ''the quick brown fox'' = ''the quick brown fox''"
  by (simp add: trim_def isWhiteSpace_def)

lemma failing_getText: "getText failing_env b = Inr ''the quick brown fox''"
  by (simp add: failing_env_def sample_env_def)

lemma failing_embeddings:
  "generateEmbeddings failing_env chunks = Inl (EmbeddingError ''insufficient_quota'')"
  by (simp add: generateEmbeddings_def failing_env_def)

lemma upload_success:
  "processPdfFile upload_env sample_db sample_form =
     (Success ''Created 1 searchable chunks'',
      \<lparr>documents = documents sample_db @
         [\<lparr>doc_id = 5, doc_content = ''the quick brown fox'',
           doc_embedding = Some (replicate 1536 0)\<rparr>],
       serial = 6\<rparr>)"
  by (simp add: processPdfFile_def processPdfFile_try_def sample_pdf upload_env_def
      sample_env_def trim_sample chunkContent_def generateEmbeddings_def records_of_def
      insert_values_def dimensions_def sample_db_def enumerate_eq_zip string_of_nat.simps)

theorem processPdfFile_embedding_failure_witness:
  "processPdfFile failing_env sample_db sample_form = (Failure ''Failed to process PDF'', sample_db)
   \<and> length (documents (snd (processPdfFile failing_env sample_db sample_form))) = 4
   \<and> generateEmbeddings failing_env (chunkContent failing_env ''the quick brown fox'')
       = Inl (EmbeddingError ''insufficient_quota'')
   \<and> length (documents (snd (processPdfFile upload_env sample_db sample_form))) = 5"
proof -
  have "\<not> (''the quick brown fox'' = [] \<or> length (trim ''the quick brown fox'') = 0)"
    by (simp add: trim_sample)
  from processPdfFile_embedding_failure [OF sample_pdf failing_getText this failing_embeddings]
  have "processPdfFile failing_env sample_db sample_form = (Failure ''Failed to process PDF'', sample_db)
    \<and> length (documents (snd (processPdfFile failing_env sample_db sample_form)))
        = length (documents sample_db)" .
  then show ?thesis
    by (simp add: failing_embeddings upload_success) (simp add: sample_db_def)
qed

text \<open>
  C4 (as amended). \<^verbatim>\<open>processPdfFile\<close> never throws: every error thrown in its body becomes
  the one result \<^verbatim>\<open>{ success: false, error: "Failed to process PDF" }\<close>, whatever its kind, and
  a result of the body is returned as it is. A text that is empty or blank gives
  \<^verbatim>\<open>"No text found in PDF"\<close>. A failing result carries one of these two messages.
\<close>

theorem processPdfFile_failure_kinds:
  "(\<forall>err db'. processPdfFile_try e db formData = (Inl err, db') \<longrightarrow>
       processPdfFile e db formData = (Failure ''Failed to process PDF'', db'))
   \<and> (\<forall>r db'. processPdfFile_try e db formData = (Inr r, db') \<longrightarrow>
       processPdfFile e db formData = (r, db'))
   \<and> (\<forall>buffer text. arrayBuffer (map_of formData ''pdf'') = Inr buffer \<and>
         getText e buffer = Inr text \<and> (text = [] \<or> length (trim text) = 0) \<longrightarrow>
       processPdfFile e db formData = (Failure ''No text found in PDF'', db))
   \<and> (\<not> success (fst (processPdfFile e db formData)) \<longrightarrow>
         fst (processPdfFile e db formData) = Failure ''No text found in PDF'' \<or>
         fst (processPdfFile e db formData) = Failure ''Failed to process PDF'')"
proof (intro conjI allI impI)
  fix err db' assume "processPdfFile_try e db formData = (Inl err, db')"
  then show "processPdfFile e db formData = (Failure ''Failed to process PDF'', db')"
    by (simp add: processPdfFile_def)
next
  fix r db' assume "processPdfFile_try e db formData = (Inr r, db')"
  then show "processPdfFile e db formData = (r, db')"
    by (simp add: processPdfFile_def)
next
  fix buffer t
  assume "arrayBuffer (map_of formData ''pdf'') = Inr buffer \<and>
         getText e buffer = Inr t \<and> (t = [] \<or> length (trim t) = 0)"
  then have "processPdfFile_try e db formData = (Inr (Failure ''No text found in PDF''), db)"
    by (auto simp: processPdfFile_try_def)
  then show "processPdfFile e db formData = (Failure ''No text found in PDF'', db)"
    by (simp add: processPdfFile_def)
next
  assume "\<not> success (fst (processPdfFile e db formData))"
  then show "fst (processPdfFile e db formData) = Failure ''No text found in PDF'' \<or>
         fst (processPdfFile e db formData) = Failure ''Failed to process PDF''"
    by (auto simp: processPdfFile_def processPdfFile_try_def Let_def
        split: sum.splits if_splits prod.splits)
qed

lemma try_embedding_error:
  "processPdfFile_try failing_env sample_db sample_form =
     (Inl (EmbeddingError ''insufficient_quota''), sample_db)"
  by (simp add: processPdfFile_try_def sample_pdf failing_getText trim_sample
      failing_embeddings)

lemma try_store_error:
  "processPdfFile_try down_env sample_db sample_form =
     (Inl (DatabaseError ''connection refused''), sample_db)"
  by (simp add: processPdfFile_try_def sample_pdf down_env_def upload_env_def
      sample_env_def trim_sample chunkContent_def generateEmbeddings_def
      insert_values_def)

lemma try_blank:
  "processPdfFile_try blank_env sample_db sample_form =
     (Inr (Failure ''No text found in PDF''), sample_db)"
  by (simp add: processPdfFile_try_def sample_pdf blank_env_def upload_env_def
      sample_env_def trim_def isWhiteSpace_def)

theorem processPdfFile_failure_kinds_witness:
  "processPdfFile failing_env sample_db sample_form = (Failure ''Failed to process PDF'', sample_db)
   \<and> processPdfFile down_env sample_db sample_form = (Failure ''Failed to process PDF'', sample_db)
   \<and> processPdfFile blank_env sample_db sample_form = (Failure ''No text found in PDF'', sample_db)
   \<and> processPdfFile_try failing_env sample_db sample_form =
        (Inl (EmbeddingError ''insufficient_quota''), sample_db)
   \<and> processPdfFile_try down_env sample_db sample_form =
        (Inl (DatabaseError ''connection refused''), sample_db)"
proof -
  have a: "processPdfFile failing_env sample_db sample_form = (Failure ''Failed to process PDF'', sample_db)"
    using processPdfFile_failure_kinds [of failing_env sample_db sample_form] try_embedding_error
    by blast
  have b: "processPdfFile down_env sample_db sample_form = (Failure ''Failed to process PDF'', sample_db)"
    using processPdfFile_failure_kinds [of down_env sample_db sample_form] try_store_error
    by blast
  have c: "processPdfFile blank_env sample_db sample_form = (Failure ''No text found in PDF'', sample_db)"
    using processPdfFile_failure_kinds [of blank_env sample_db sample_form] try_blank
    by blast
  from a b c try_embedding_error try_store_error show ?thesis by blast
qed

text \<open>
  C4 as stated fails: an upload whose embedding call fails and the same upload whose
  database call fails return the same result, so the caller cannot tell the two kinds apart.
\<close>

theorem processPdfFile_same_failure_counterexample:
  "processPdfFile_try failing_env sample_db sample_form =
     (Inl (EmbeddingError ''insufficient_quota''), sample_db)
   \<and> processPdfFile_try down_env sample_db sample_form =
     (Inl (DatabaseError ''connection refused''), sample_db)
   \<and> processPdfFile failing_env sample_db sample_form =
     processPdfFile down_env sample_db sample_form"
  by (simp add: try_embedding_error try_store_error processPdfFile_def)

section \<open>Claims on chunking and embedding\<close>

lemma trim_ends:
  "trim s = [] \<or> (\<not> isWhiteSpace (hd (trim s)) \<and> \<not> isWhiteSpace (last (trim s)))"
proof (cases "trim s = []")
  case True
  then show ?thesis by simp
next
  case False
  define t where "t = dropWhile isWhiteSpace s"
  define u where "u = dropWhile isWhiteSpace (rev t)"
  have tr: "trim s = rev u" by (simp add: trim_def t_def u_def)
  with False have u: "u \<noteq> []" by simp
  then have "\<not> isWhiteSpace (hd u)" unfolding u_def by (rule hd_dropWhile)
  then have last_ok: "\<not> isWhiteSpace (last (trim s))" using u by (simp add: tr last_rev)
  from u have t: "t \<noteq> []" by (auto simp: u_def)
  then have hd_t: "\<not> isWhiteSpace (hd t)" unfolding t_def by (rule hd_dropWhile)
  have "rev t = takeWhile isWhiteSpace (rev t) @ u"
    by (simp add: u_def)
  then have "last (rev t) = last u" using u by (metis last_appendR)
  then have "hd (trim s) = hd t" using u t by (simp add: tr hd_rev last_rev)
  with hd_t last_ok False show ?thesis by simp
qed

lemma trim_infix:
  "\<exists>pre post. s = pre @ trim s @ post \<and> list_all isWhiteSpace pre \<and> list_all isWhiteSpace post"
proof -
  define t where "t = dropWhile isWhiteSpace s"
  define u where "u = dropWhile isWhiteSpace (rev t)"
  define pre where "pre = takeWhile isWhiteSpace s"
  define post where "post = rev (takeWhile isWhiteSpace (rev t))"
  have "rev t = takeWhile isWhiteSpace (rev t) @ u" by (simp add: u_def)
  then have "rev (rev t) = rev (takeWhile isWhiteSpace (rev t) @ u)" by simp
  then have t: "t = rev u @ post" by (simp add: post_def)
  have tr: "trim s = rev u" by (simp add: trim_def t_def u_def)
  have "s = pre @ t" by (simp add: pre_def t_def)
  then have "s = pre @ rev u @ post" by (subst (asm) t)
  then have "s = pre @ trim s @ post" unfolding tr .
  moreover have "list_all isWhiteSpace pre"
    by (auto simp: pre_def list_all_iff dest: set_takeWhileD)
  moreover have "list_all isWhiteSpace post"
    by (auto simp: post_def list_all_iff dest: set_takeWhileD)
  ultimately show ?thesis by blast
qed

text \<open>
  C7. \<^verbatim>\<open>chunkContent\<close> gives the splitter the trimmed content, with chunk size 150, overlap 20
  and the single separator \<^verbatim>\<open>" "\<close>. The trimmed content neither starts nor ends with white
  space, and the content is the trimmed content between two runs of white space.
\<close>

theorem chunkContent_trims_then_splits:
  "chunkContent e content =
     splitText e \<lparr>chunkSize = 150, chunkOverlap = 20, separators = ['' '']\<rparr> (trim content)
   \<and> (trim content = [] \<or>
        (\<not> isWhiteSpace (hd (trim content)) \<and> \<not> isWhiteSpace (last (trim content))))
   \<and> (\<exists>pre post. content = pre @ trim content @ post \<and>
         list_all isWhiteSpace pre \<and> list_all isWhiteSpace post)"
  using trim_ends [of content] trim_infix [of content]
  by (simp add: chunkContent_def textSplitter_def)

theorem chunkContent_trims_then_splits_witness:
  "chunkContent sample_env [CHR 0x0A, CHR '' '', CHR ''f'', CHR ''o'', CHR ''x'', CHR '' '',
       CHR ''d'', CHR ''o'', CHR ''g'', CHR 0x09, CHR '' '']
     = splitText sample_env \<lparr>chunkSize = 150, chunkOverlap = 20, separators = ['' '']\<rparr>
         ''fox dog''
   \<and> trim [CHR 0x0A, CHR '' '', CHR ''f'', CHR ''o'', CHR ''x'', CHR '' '',
       CHR ''d'', CHR ''o'', CHR ''g'', CHR 0x09, CHR '' ''] = ''fox dog''"
proof -
  have t: "trim [CHR 0x0A, CHR '' '', CHR ''f'', CHR ''o'', CHR ''x'', CHR '' '',
       CHR ''d'', CHR ''o'', CHR ''g'', CHR 0x09, CHR '' ''] = ''fox dog''"
    by (simp add: trim_def isWhiteSpace_def)
  from chunkContent_trims_then_splits [of sample_env "[CHR 0x0A, CHR '' '', CHR ''f'', CHR ''o'', CHR ''x'', CHR '' '',
       CHR ''d'', CHR ''o'', CHR ''g'', CHR 0x09, CHR '' '']"]
  have "chunkContent sample_env [CHR 0x0A, CHR '' '', CHR ''f'', CHR ''o'', CHR ''x'', CHR '' '',
       CHR ''d'', CHR ''o'', CHR ''g'', CHR 0x09, CHR '' '']
     = splitText sample_env \<lparr>chunkSize = 150, chunkOverlap = 20, separators = ['' '']\<rparr>
         (trim [CHR 0x0A, CHR '' '', CHR ''f'', CHR ''o'', CHR ''x'', CHR '' '',
       CHR ''d'', CHR ''o'', CHR ''g'', CHR 0x09, CHR '' ''])"
    by (rule conjunct1)
  with t show ?thesis by simp
qed

lemma replace_newlines_length: "length (replace_newlines t) = length t"
  by (induction t) simp_all

lemma replace_newlines_free: "CHR 0x0A \<notin> set (replace_newlines t)"
  by (induction t) simp_all

lemma replace_newlines_nth:
  "i < length t \<Longrightarrow>
     replace_newlines t ! i = (if t ! i = CHR 0x0A then CHR '' '' else t ! i)"
proof (induction t arbitrary: i)
  case Nil
  then show ?case by simp
next
  case (Cons c cs)
  then show ?case by (cases i) simp_all
qed

text \<open>
  C9. \<^verbatim>\<open>generateEmbedding\<close> submits its text, and \<^verbatim>\<open>generateEmbeddings\<close> each of its texts, with
  every newline replaced by one space: the submitted string has the length of the text, no
  newline, a space wherever the text has a newline and the text's character elsewhere.
\<close>

theorem embeddings_submit_without_newlines:
  "generateEmbedding e t = embed e ''text-embedding-3-small'' (replace_newlines t)
   \<and> generateEmbeddings e ts =
       embedMany e ''text-embedding-3-small'' (map replace_newlines ts)
   \<and> (\<forall>t. length (replace_newlines t) = length t \<and> CHR 0x0A \<notin> set (replace_newlines t) \<and>
        (\<forall>i<length t. replace_newlines t ! i = (if t ! i = CHR 0x0A then CHR '' '' else t ! i)))"
  by (simp add: generateEmbedding_def generateEmbeddings_def embedding_model_def
      replace_newlines_length replace_newlines_free replace_newlines_nth)

theorem embeddings_submit_without_newlines_witness:
  "generateEmbedding sample_env [CHR ''a'', CHR 0x0A, CHR 0x0A, CHR ''b'']
     = embed sample_env ''text-embedding-3-small'' ''a  b''
   \<and> generateEmbeddings sample_env [[CHR ''a'', CHR 0x0A, CHR ''b''], [CHR 0x0A], ''c d'']
     = embedMany sample_env ''text-embedding-3-small'' [''a b'', '' '', ''c d'']
   \<and> replace_newlines [CHR ''a'', CHR 0x0A, CHR 0x0A, CHR ''b''] ! 1 = CHR '' ''"
proof -
  note sub = embeddings_submit_without_newlines
    [of sample_env "[CHR ''a'', CHR 0x0A, CHR 0x0A, CHR ''b'']"
        "[[CHR ''a'', CHR 0x0A, CHR ''b''], [CHR 0x0A], ''c d'']"]
  from sub have a: "generateEmbedding sample_env [CHR ''a'', CHR 0x0A, CHR 0x0A, CHR ''b'']
     = embed sample_env ''text-embedding-3-small'' ''a  b''"
    by simp
  from sub have b: "generateEmbeddings sample_env [[CHR ''a'', CHR 0x0A, CHR ''b''], [CHR 0x0A], ''c d'']
     = embedMany sample_env ''text-embedding-3-small'' [''a b'', '' '', ''c d'']"
    by simp
  have c: "replace_newlines [CHR ''a'', CHR 0x0A, CHR 0x0A, CHR ''b''] ! 1 = CHR '' ''"
    by simp
  from a b c show ?thesis by blast
qed

section \<open>Claim on the chat route's tool\<close>

lemma sample_from_where_tool:
  "from_where sample_env unit_query (Num 0.5) (documents sample_db) =
     [\<lparr>res_id = 2, res_content = ''near'', res_similarity = Num (4/5)\<rparr>,
      \<lparr>res_id = 4, res_content = ''same'', res_similarity = Num 1\<rparr>]"
  using sample_from_where_half by simp

lemma sample_search_tool:
  "searchDocuments sample_env sample_db ''fox'' 3 (Num 0.5)
     (Inr [\<lparr>res_id = 4, res_content = ''same'', res_similarity = Num 1\<rparr>,
           \<lparr>res_id = 2, res_content = ''near'', res_similarity = Num (4/5)\<rparr>])"
proof (rule searchDocuments_rowsI [OF sample_embedding sample_fault])
  show "orderBy_desc (from_where sample_env unit_query (Num 0.5) (documents sample_db))
          [\<lparr>res_id = 4, res_content = ''same'', res_similarity = Num 1\<rparr>,
           \<lparr>res_id = 2, res_content = ''near'', res_similarity = Num (4/5)\<rparr>]"
    by (simp only: sample_from_where_tool) (simp add: orderBy_desc_def desc_similarity_def float8_le_def)
qed (simp add: limit_rows_def)

lemma empty_search_tool:
  "searchDocuments sample_env empty_db ''fox'' 3 (Num 0.5) (Inr [])"
proof (rule searchDocuments_rowsI [OF sample_embedding sample_fault])
  show "orderBy_desc (from_where sample_env unit_query (Num 0.5) (documents empty_db)) []"
    by (simp add: empty_db_def from_where_def map_filter_def orderBy_desc_def
        desc_similarity_def)
qed (simp add: limit_rows_def)

lemma sample_formatted:
  "formattedResults [\<lparr>res_id = 4, res_content = ''same'', res_similarity = Num 1\<rparr>,
           \<lparr>res_id = 2, res_content = ''near'', res_similarity = Num (4/5)\<rparr>]
   = ''[1] same'' @ [CHR 0x0A] @ ''[2] near''"
  by (simp add: formattedResults_def join_def string_of_nat.simps)

text \<open>
  C10. Whatever \<^verbatim>\<open>execute\<close> of \<^verbatim>\<open>searchKnoledgeBase\<close> returns is the reply to what
  \<^verbatim>\<open>searchDocuments\<close> settles to with limit 3 and threshold 0.5, for the query alone; the reply
  to zero results is the string \<^verbatim>\<open>"No relevant information found"\<close>, which \<^verbatim>\<open>execute\<close> returns
  when the search resolves to the empty sequence.
\<close>

theorem execute_fixed_search:
  "(execute e db query out \<longleftrightarrow>
      (\<exists>v. searchDocuments e db query 3 (Num 0.5) v \<and> out = tool_reply v))
   \<and> tool_reply (Inr []) = Text ''No relevant information found''
   \<and> (searchDocuments e db query 3 (Num 0.5) (Inr []) \<longrightarrow>
        execute e db query (Text ''No relevant information found''))"
proof (intro conjI)
  show "execute e db query out \<longleftrightarrow>
      (\<exists>v. searchDocuments e db query 3 (Num 0.5) v \<and> out = tool_reply v)"
    by (auto simp: execute.simps)
  show "tool_reply (Inr []) = Text ''No relevant information found''"
    by simp
  show "searchDocuments e db query 3 (Num 0.5) (Inr []) \<longrightarrow>
        execute e db query (Text ''No relevant information found'')"
    using execute.settled [of e db query "Inr []"] by simp
qed

theorem execute_fixed_search_witness:
  "searchDocuments sample_env empty_db ''fox'' 3 (Num 0.5) (Inr [])
   \<and> execute sample_env empty_db ''fox'' (Text ''No relevant information found'')
   \<and> execute sample_env sample_db ''fox'' (Text (''[1] same'' @ [CHR 0x0A] @ ''[2] near''))"
proof -
  from execute_fixed_search [of sample_env empty_db "''fox''"] empty_search_tool
  have a: "execute sample_env empty_db ''fox'' (Text ''No relevant information found'')"
    by blast
  have "tool_reply (Inr [\<lparr>res_id = 4, res_content = ''same'', res_similarity = Num 1\<rparr>,
           \<lparr>res_id = 2, res_content = ''near'', res_similarity = Num (4/5)\<rparr>])
        = Text (''[1] same'' @ [CHR 0x0A] @ ''[2] near'')"
    by (simp only: tool_reply.simps sample_formatted) simp
  with execute_fixed_search [of sample_env sample_db "''fox''"
      "Text (''[1] same'' @ [CHR 0x0A] @ ''[2] near'')"] sample_search_tool
  have b: "execute sample_env sample_db ''fox'' (Text (''[1] same'' @ [CHR 0x0A] @ ''[2] near''))"
    by metis
  from a b empty_search_tool show ?thesis by blast
qed

end

